theory Spec2Isabelle
  imports Complex_Main "HOL-Library.Word" "HOL-Library.Sublist"
begin

section \<open>Package hardcoded: acti/hardcoded/apps.go\<close>

subsection \<open>Values of the Go program\<close>

text \<open>
  A Go string is a sequence of bytes, as a HOL \<open>string\<close> is. A \<open>float64\<close> of this
  package is only ever a constant of the source (a table entry, \<open>-1\<close>, \<open>100.\<close> or the
  zero value of a missing map entry): the package does no floating-point arithmetic.
  Each such value is written as the decimal constant of the source.
\<close>

type_synonym float64 = real

text \<open>
  The value of Go's \<open>error\<close> interface is \<open>nil\<close> (\<open>None\<close>) or an error carrying its
  message; \<open>fmt.Errorf\<close> with a format without \<open>%w\<close> builds such an error from the
  formatted text.
\<close>

datatype error = errorString (Error: string)

text \<open>
  A pointer is \<open>None\<close> when nil. Dereferencing nil panics, so a function that
  dereferences its arguments either panics or returns its results.
\<close>

datatype 'a outcome = Panic | Return 'a

text \<open>
  Reading a Go map at a missing key (or reading a nil map) gives the zero value of the
  value type.
\<close>

definition index_string :: "(string \<rightharpoonup> string) \<Rightarrow> string \<Rightarrow> string" where
  "index_string m k = (case m k of None \<Rightarrow> [] | Some v \<Rightarrow> v)"

subsection \<open>appCategory\<close>

text \<open>\<open>type appCategory int64\<close>, with the constants numbered by \<open>iota\<close>.\<close>

type_synonym appCategory = "64 word"

definition catA :: appCategory where "catA = 0"
definition catB :: appCategory where "catB = 1"
definition catC :: appCategory where "catC = 2"
definition catD :: appCategory where "catD = 3"
definition catE :: appCategory where "catE = 4"

text \<open>\<open>func (ac appCategory) String() string\<close>\<close>

definition String :: "appCategory \<Rightarrow> string" where
  "String ac =
     (if ac = catA then ''catA''
      else if ac = catB then ''catB''
      else if ac = catC then ''catC''
      else if ac = catD then ''catD''
      else if ac = catE then ''catE''
      else ''UNKNOWN'')"

text \<open>
  \<open>func parseAppCategory(category string) (appCategory, error)\<close>: both results are
  returned, also in the failing case, where the category is \<open>-1\<close>.
\<close>

definition parseAppCategory :: "string \<Rightarrow> appCategory \<times> error option" where
  "parseAppCategory category =
     (if category = ''catA'' then (catA, None)
      else if category = ''catB'' then (catB, None)
      else if category = ''catC'' then (catC, None)
      else if category = ''catD'' then (catD, None)
      else if category = ''catE'' then (catE, None)
      else (- 1, Some (errorString
              (''unknown application category: '' @ [CHR 0x27] @ category @ [CHR 0x27]))))"

subsection \<open>slowDownMatrix\<close>

type_synonym slowDownMatrix = "appCategory \<rightharpoonup> (appCategory \<rightharpoonup> float64)"

definition slowDowns :: slowDownMatrix where
  "slowDowns = map_of
     [(catA, map_of [(catA, 1.15), (catB, 2.43), (catC, 1.22), (catD, 1.34), (catE, 1.41)]),
      (catB, map_of [(catA, 2.19), (catB, 1.26), (catC, 1.48), (catD, 3.10), (catE, 1.37)]),
      (catC, map_of [(catA, 1.21), (catB, 3.09), (catC, 2.12), (catD, 1.18), (catE, 1.53)]),
      (catD, map_of [(catA, 1.47), (catB, 1.24), (catC, 1.76), (catD, 2.25), (catE, 1.10)]),
      (catE, map_of [(catA, 3.15), (catB, 1.74), (catC, 1.16), (catD, 1.27), (catE, 2.53)])]"

text \<open>
  \<open>slowDowns[ac][occupant]\<close>: a missing row is the nil map, and a missing entry of a
  row is \<open>0\<close>.
\<close>

definition index_row :: "slowDownMatrix \<Rightarrow> appCategory \<Rightarrow> (appCategory \<rightharpoonup> float64)" where
  "index_row m k = (case m k of None \<Rightarrow> Map.empty | Some row \<Rightarrow> row)"

definition index_float64 :: "(appCategory \<rightharpoonup> float64) \<Rightarrow> appCategory \<Rightarrow> float64" where
  "index_float64 row k = (case row k of None \<Rightarrow> 0 | Some v \<Rightarrow> v)"

text \<open>\<open>func (ac appCategory) attack(occupant appCategory) float64\<close>\<close>

definition attack :: "appCategory \<Rightarrow> appCategory \<Rightarrow> float64" where
  "attack ac occupant = index_float64 (index_row slowDowns ac) occupant"

subsection \<open>HardcodedSlowDowns\<close>

record HardcodedSlowDowns =
  actiLabelKey :: string

text \<open>Of \<open>corev1.Pod\<close> the package reads the labels only.\<close>

record Pod =
  Labels :: "string \<rightharpoonup> string"

definition New :: "string \<Rightarrow> HardcodedSlowDowns option" where
  "New key = Some \<lparr>actiLabelKey = key\<rparr>"

text \<open>
  \<open>func (m *HardcodedSlowDowns) Attack(attacker, occupant *corev1.Pod) (float64, error)\<close>.
  The first statement reads through \<open>occupant\<close> and \<open>m\<close>, the second through
  \<open>attacker\<close>; the error of the occupant's parse is dropped and its category kept.
\<close>

definition Attack ::
  "HardcodedSlowDowns option \<Rightarrow> Pod option \<Rightarrow> Pod option \<Rightarrow> (float64 \<times> error option) outcome"
where
  "Attack m attacker occupant =
     (case (occupant, m) of
        (Some occ, Some hs) \<Rightarrow>
          (let occPodCategory = fst (parseAppCategory (index_string (Labels occ) (actiLabelKey hs)))
           in case attacker of
                None \<Rightarrow> Panic
              | Some att \<Rightarrow>
                  (case parseAppCategory (index_string (Labels att) (actiLabelKey hs)) of
                     (newPodCategory, Some err) \<Rightarrow> Return (- 1, Some err)
                   | (newPodCategory, None) \<Rightarrow> Return (attack newPodCategory occPodCategory, None)))
      | _ \<Rightarrow> Panic)"

definition toInt64Multiplier :: float64 where
  "toInt64Multiplier = 100"

text \<open>
  \<open>func (_ *HardcodedSlowDowns) ToInt64Multiplier() float64\<close>: the receiver is not
  read, so a nil receiver does not panic.
\<close>

definition ToInt64Multiplier :: "HardcodedSlowDowns option \<Rightarrow> float64" where
  "ToInt64Multiplier m = toInt64Multiplier"

text \<open>
  The closed set of categories with their canonical names, and the label a pod carries
  under the key of the model.
\<close>

definition categories :: "appCategory list" where
  "categories = [catA, catB, catC, catD, catE]"

definition canonicalNames :: "string list" where
  "canonicalNames = [''catA'', ''catB'', ''catC'', ''catD'', ''catE'']"

definition label_of :: "HardcodedSlowDowns \<Rightarrow> Pod \<Rightarrow> string" where
  "label_of hs p = index_string (Labels p) (actiLabelKey hs)"

text \<open>A model and pods carrying one label, for concrete runs.\<close>

definition exampleModel :: HardcodedSlowDowns where
  "exampleModel = \<lparr>actiLabelKey = ''acti''\<rparr>"

definition examplePod :: "string \<Rightarrow> Pod" where
  "examplePod v = \<lparr>Labels = [''acti'' \<mapsto> v]\<rparr>"

text \<open>A pod with no label at all.\<close>

definition unlabelledPod :: Pod where
  "unlabelledPod = \<lparr>Labels = Map.empty\<rparr>"

section \<open>Properties\<close>

subsection \<open>Auxiliary facts\<close>

lemmas cat_defs = catA_def catB_def catC_def catD_def catE_def

lemma parse_String:
  "c \<in> set categories \<Longrightarrow> parseAppCategory (String c) = (c, None)"
  by (auto simp: categories_def String_def parseAppCategory_def cat_defs)

lemma Attack_pods:
  "Attack (Some hs) (Some att) (Some occ) =
     (case parseAppCategory (label_of hs att) of
        (c, Some err) \<Rightarrow> Return (- 1, Some err)
      | (c, None) \<Rightarrow> Return (attack c (fst (parseAppCategory (label_of hs occ))), None))"
  by (simp add: Attack_def label_of_def Let_def split: prod.splits option.splits)

lemma parse_canonical:
  "s \<in> set canonicalNames \<Longrightarrow> \<exists>c. c \<in> set categories \<and> parseAppCategory s = (c, None) \<and> String c = s"
  by (auto simp: canonicalNames_def categories_def parseAppCategory_def String_def cat_defs)

lemma parse_unknown:
  "s \<notin> set canonicalNames \<Longrightarrow>
     parseAppCategory s =
       (- 1, Some (errorString (''unknown application category: '' @ [CHR 0x27] @ s @ [CHR 0x27])))"
  by (simp add: canonicalNames_def parseAppCategory_def)

lemma String_canonical: "c \<in> set categories \<Longrightarrow> String c \<in> set canonicalNames"
  by (auto simp: canonicalNames_def categories_def String_def cat_defs)

lemma minus_one_not_category: "(- 1 :: appCategory) \<notin> set categories"
  by (simp add: categories_def cat_defs)

lemma slowDowns_dense:
  "a \<in> set categories \<Longrightarrow> b \<in> set categories \<Longrightarrow>
     slowDowns a = Some (index_row slowDowns a) \<and> index_row slowDowns a b = Some (attack a b)"
  by (auto simp: categories_def attack_def index_float64_def index_row_def slowDowns_def cat_defs)

lemma row_no_entry:
  "b \<notin> set categories \<Longrightarrow> index_row slowDowns a b = None"
  by (simp add: categories_def index_row_def slowDowns_def cat_defs)

lemma attack_no_entry:
  "b \<notin> set categories \<Longrightarrow> attack a b = 0"
  by (simp add: attack_def index_float64_def row_no_entry)

lemma attack_nonneg: "0 \<le> attack a b"
  by (simp add: attack_def index_float64_def index_row_def slowDowns_def cat_defs split: option.splits)

lemma slowDowns_nonneg: "slowDowns a = Some row \<Longrightarrow> row b = Some v \<Longrightarrow> 0 \<le> v"
  by (auto simp: slowDowns_def cat_defs split: if_splits)

lemma label_of_examplePod: "label_of exampleModel (examplePod v) = v"
  by (simp add: label_of_def exampleModel_def examplePod_def index_string_def)

subsection \<open>Claims\<close>

text \<open>
  C1. For every pair of categories \<open>a\<close>, \<open>b\<close> of the closed set, \<open>Attack\<close> on an
  attacker labelled \<open>String a\<close> and an occupant labelled \<open>String b\<close> returns, with a nil
  error, the entry of \<open>slowDowns\<close> at row \<open>a\<close> and key \<open>b\<close>, which exists; for
  \<open>catA\<close> against \<open>catB\<close> it is 2.43 and for \<open>catB\<close> against \<open>catD\<close> it is 3.10.
\<close>

theorem Attack_returns_table_entry:
  "a \<in> set categories \<Longrightarrow> b \<in> set categories \<Longrightarrow>
   label_of hs att = String a \<Longrightarrow> label_of hs occ = String b \<Longrightarrow>
     (\<exists>row v. slowDowns a = Some row \<and> row b = Some v \<and>
        Attack (Some hs) (Some att) (Some occ) = Return (v, None)) \<and>
     (a = catA \<and> b = catB \<longrightarrow> Attack (Some hs) (Some att) (Some occ) = Return (2.43, None)) \<and>
     (a = catB \<and> b = catD \<longrightarrow> Attack (Some hs) (Some att) (Some occ) = Return (3.10, None))"
proof -
  assume a: "a \<in> set categories" and hb: "b \<in> set categories"
    and la: "label_of hs att = String a" and lo: "label_of hs occ = String b"
  have run: "Attack (Some hs) (Some att) (Some occ) = Return (attack a b, None)"
    by (simp add: Attack_pods la lo parse_String a hb)
  from slowDowns_dense [OF a hb] have "\<exists>row v. slowDowns a = Some row \<and> row b = Some v \<and>
        Attack (Some hs) (Some att) (Some occ) = Return (v, None)"
    using run by blast
  moreover have "attack catA catB = 2.43" "attack catB catD = 3.10"
    by (simp_all add: attack_def index_float64_def index_row_def slowDowns_def cat_defs)
  ultimately show ?thesis using run by auto
qed

theorem Attack_returns_table_entry_witness:
  "catB \<in> set categories \<and> catD \<in> set categories \<and>
   label_of exampleModel (examplePod ''catB'') = String catB \<and>
   label_of exampleModel (examplePod ''catD'') = String catD \<and>
   Attack (Some exampleModel) (Some (examplePod ''catB'')) (Some (examplePod ''catD'')) = Return (3.10, None)"
proof -
  have a: "catB \<in> set categories" and hb: "catD \<in> set categories"
    by (simp_all add: categories_def)
  have la: "label_of exampleModel (examplePod ''catB'') = String catB"
    and lo: "label_of exampleModel (examplePod ''catD'') = String catD"
    by (simp_all add: label_of_examplePod String_def cat_defs)
  from Attack_returns_table_entry [OF a hb la lo] a hb la lo show ?thesis by simp
qed

text \<open>
  C2. When the attacker's label is not a canonical category name, \<open>Attack\<close> returns
  \<open>-1\<close> with an error whose message is \<open>unknown application category: '<label>'\<close>,
  which contains the label, whatever the occupant's label is; when the attacker's label
  is a canonical name, \<open>Attack\<close> returns a nil error.
\<close>

theorem Attack_unknown_attacker:
  "(label_of hs att \<notin> set canonicalNames \<longrightarrow>
      (\<exists>e. Attack (Some hs) (Some att) (Some occ) = Return (- 1, Some e) \<and>
           Error e = ''unknown application category: '' @ [CHR 0x27] @ label_of hs att @ [CHR 0x27] \<and>
           sublist (label_of hs att) (Error e))) \<and>
   (label_of hs att \<in> set canonicalNames \<longrightarrow>
      (\<exists>v. Attack (Some hs) (Some att) (Some occ) = Return (v, None)))"
proof (intro conjI impI)
  assume unknown: "label_of hs att \<notin> set canonicalNames"
  let ?msg = "''unknown application category: '' @ [CHR 0x27] @ label_of hs att @ [CHR 0x27]"
  have "Attack (Some hs) (Some att) (Some occ) = Return (- 1, Some (errorString ?msg))"
    by (simp add: Attack_pods parse_unknown [OF unknown])
  moreover have "sublist (label_of hs att) ?msg"
    unfolding sublist_def by (metis append.assoc)
  ultimately show "\<exists>e. Attack (Some hs) (Some att) (Some occ) = Return (- 1, Some e) \<and>
           Error e = ?msg \<and> sublist (label_of hs att) (Error e)"
    by simp
next
  assume "label_of hs att \<in> set canonicalNames"
  then obtain c where "parseAppCategory (label_of hs att) = (c, None)"
    using parse_canonical by blast
  then show "\<exists>v. Attack (Some hs) (Some att) (Some occ) = Return (v, None)"
    by (simp add: Attack_pods)
qed

theorem Attack_unknown_attacker_witness:
  "''unknownCat'' \<notin> set canonicalNames \<and>
   (\<exists>e. Attack (Some exampleModel) (Some (examplePod ''unknownCat'')) (Some (examplePod ''catA''))
           = Return (- 1, Some e) \<and>
        Error e = ''unknown application category: '' @ [CHR 0x27] @ ''unknownCat'' @ [CHR 0x27] \<and>
        sublist ''unknownCat'' (Error e)) \<and>
   ''catA'' \<in> set canonicalNames \<and>
   (\<exists>v. Attack (Some exampleModel) (Some (examplePod ''catA'')) (Some (examplePod ''unknownCat''))
           = Return (v, None))"
proof -
  have no: "''unknownCat'' \<notin> set canonicalNames" and yes: "''catA'' \<in> set canonicalNames"
    by (simp_all add: canonicalNames_def)
  from Attack_unknown_attacker
         [of exampleModel "examplePod ''unknownCat''" "examplePod ''catA''"]
       Attack_unknown_attacker
         [of exampleModel "examplePod ''catA''" "examplePod ''unknownCat''"]
       no yes
  show ?thesis by (simp add: label_of_examplePod)
qed

text \<open>
  C3. When the attacker's label is a canonical category name, \<open>Attack\<close> returns with a
  nil error for every occupant pod, whatever its label: when the occupant's label is not
  canonical, its parse does give an error, which is dropped, and the lookup goes on with
  the category \<open>-1\<close> of the failed parse.
\<close>

theorem Attack_tolerates_occupant:
  "label_of hs att \<in> set canonicalNames \<Longrightarrow>
     (\<exists>v. Attack (Some hs) (Some att) (Some occ) = Return (v, None)) \<and>
     (label_of hs occ \<notin> set canonicalNames \<longrightarrow>
        snd (parseAppCategory (label_of hs occ)) \<noteq> None \<and>
        Attack (Some hs) (Some att) (Some occ) =
          Return (attack (fst (parseAppCategory (label_of hs att))) (- 1), None))"
proof -
  assume "label_of hs att \<in> set canonicalNames"
  then obtain c where c: "parseAppCategory (label_of hs att) = (c, None)"
    using parse_canonical by blast
  then have "Attack (Some hs) (Some att) (Some occ) =
      Return (attack c (fst (parseAppCategory (label_of hs occ))), None)"
    by (simp add: Attack_pods)
  then show ?thesis using c by (auto simp: parse_unknown)
qed

theorem Attack_tolerates_occupant_witness:
  "''catC'' \<in> set canonicalNames \<and> label_of exampleModel unlabelledPod = [] \<and>
   [] \<notin> set canonicalNames \<and>
   (\<exists>v. Attack (Some exampleModel) (Some (examplePod ''catC'')) (Some unlabelledPod) = Return (v, None)) \<and>
   snd (parseAppCategory []) \<noteq> None"
proof -
  have yes: "label_of exampleModel (examplePod ''catC'') \<in> set canonicalNames"
    by (simp add: label_of_examplePod canonicalNames_def)
  have empty: "label_of exampleModel unlabelledPod = []"
    by (simp add: label_of_def unlabelledPod_def index_string_def)
  have no: "[] \<notin> set canonicalNames" by (simp add: canonicalNames_def)
  from Attack_tolerates_occupant [OF yes, of unlabelledPod] yes empty no
  show ?thesis by (simp add: label_of_examplePod)
qed

text \<open>
  C4. When the occupant's label is not a canonical category name and the attacker's is,
  \<open>Attack\<close> returns \<open>0\<close> with a nil error: the occupant's parse gives the category
  \<open>-1\<close>, the attacker's row of \<open>slowDowns\<close> has no entry at \<open>-1\<close>, and the missing
  entry reads as \<open>0\<close>.
\<close>

theorem Attack_unknown_occupant_zero:
  "label_of hs occ \<notin> set canonicalNames \<Longrightarrow> label_of hs att \<in> set canonicalNames \<Longrightarrow>
     fst (parseAppCategory (label_of hs occ)) = - 1 \<and>
     index_row slowDowns (fst (parseAppCategory (label_of hs att))) (- 1) = None \<and>
     Attack (Some hs) (Some att) (Some occ) = Return (0, None)"
proof -
  assume occ: "label_of hs occ \<notin> set canonicalNames"
    and att: "label_of hs att \<in> set canonicalNames"
  from att obtain c where c: "parseAppCategory (label_of hs att) = (c, None)"
    using parse_canonical by blast
  have "Attack (Some hs) (Some att) (Some occ) = Return (attack c (- 1), None)"
    by (simp add: Attack_pods c parse_unknown [OF occ])
  then show ?thesis
    by (simp add: parse_unknown [OF occ] row_no_entry attack_no_entry minus_one_not_category)
qed

theorem Attack_unknown_occupant_zero_witness:
  "''nope'' \<notin> set canonicalNames \<and> ''catE'' \<in> set canonicalNames \<and>
   fst (parseAppCategory ''nope'') = - 1 \<and>
   index_row slowDowns catE (- 1) = None \<and>
   Attack (Some exampleModel) (Some (examplePod ''catE'')) (Some (examplePod ''nope'')) = Return (0, None)"
proof -
  have occ: "label_of exampleModel (examplePod ''nope'') \<notin> set canonicalNames"
    and att: "label_of exampleModel (examplePod ''catE'') \<in> set canonicalNames"
    by (simp_all add: label_of_examplePod canonicalNames_def)
  have p: "parseAppCategory ''catE'' = (catE, None)"
    by (simp add: parseAppCategory_def)
  from Attack_unknown_occupant_zero [OF occ att] occ att p
  show ?thesis by (simp add: label_of_examplePod)
qed

text \<open>
  C5. The table is directional: with the attacker labelled \<open>catA\<close> and the occupant
  \<open>catB\<close>, \<open>Attack\<close> returns 2.43, with the two exchanged it returns 2.19, and the
  two results differ.
\<close>

theorem Attack_directional:
  "label_of hs p = ''catA'' \<Longrightarrow> label_of hs q = ''catB'' \<Longrightarrow>
     Attack (Some hs) (Some p) (Some q) = Return (2.43, None) \<and>
     Attack (Some hs) (Some q) (Some p) = Return (2.19, None) \<and>
     Attack (Some hs) (Some p) (Some q) \<noteq> Attack (Some hs) (Some q) (Some p) \<and>
     attack catA catB \<noteq> attack catB catA"
proof -
  assume p: "label_of hs p = ''catA''" and q: "label_of hs q = ''catB''"
  have pa: "parseAppCategory ''catA'' = (catA, None)" and pb: "parseAppCategory ''catB'' = (catB, None)"
    by (simp_all add: parseAppCategory_def)
  have ab: "attack catA catB = 2.43" and ba: "attack catB catA = 2.19"
    by (simp_all add: attack_def index_float64_def index_row_def slowDowns_def cat_defs)
  show ?thesis by (simp add: Attack_pods p q pa pb ab ba)
qed

theorem Attack_directional_witness:
  "label_of exampleModel (examplePod ''catA'') = ''catA'' \<and>
   label_of exampleModel (examplePod ''catB'') = ''catB'' \<and>
   Attack (Some exampleModel) (Some (examplePod ''catA'')) (Some (examplePod ''catB'')) = Return (2.43, None) \<and>
   Attack (Some exampleModel) (Some (examplePod ''catB'')) (Some (examplePod ''catA'')) = Return (2.19, None)"
proof -
  have p: "label_of exampleModel (examplePod ''catA'') = ''catA''"
    and q: "label_of exampleModel (examplePod ''catB'') = ''catB''"
    by (simp_all add: label_of_examplePod)
  from Attack_directional [OF p q] p q show ?thesis by simp
qed

text \<open>
  C6. For every category \<open>c\<close> of the closed set, parsing the string of \<open>c\<close> succeeds
  (the error is nil) and gives \<open>c\<close> back.
\<close>

theorem parse_String_roundtrip:
  "\<forall>c \<in> set categories. parseAppCategory (String c) = (c, None)"
  by (simp add: parse_String)

theorem parse_String_roundtrip_witness:
  "catC \<in> set categories \<and> String catC = ''catC'' \<and> parseAppCategory (String catC) = (catC, None)"
proof -
  have c: "catC \<in> set categories" by (simp add: categories_def)
  have s: "String catC = ''catC''" by (simp add: String_def cat_defs)
  from parse_String_roundtrip c have "parseAppCategory (String catC) = (catC, None)"
    by (rule bspec)
  with c s show ?thesis by simp
qed

text \<open>
  C7. \<open>parseAppCategory\<close> returns a nil error exactly on the five canonical names; on
  every other string it returns \<open>-1\<close> and an error whose message is
  \<open>unknown application category: '<string>'\<close>, which contains the string.
\<close>

theorem parse_succeeds_iff_canonical:
  "(snd (parseAppCategory s) = None \<longleftrightarrow> s \<in> set canonicalNames) \<and>
   (s \<notin> set canonicalNames \<longrightarrow>
      (\<exists>e. parseAppCategory s = (- 1, Some e) \<and>
           Error e = ''unknown application category: '' @ [CHR 0x27] @ s @ [CHR 0x27] \<and>
           sublist s (Error e)))"
proof (cases "s \<in> set canonicalNames")
  case True
  then show ?thesis using parse_canonical [of s] by auto
next
  case False
  let ?msg = "''unknown application category: '' @ [CHR 0x27] @ s @ [CHR 0x27]"
  have "sublist s ?msg"
    unfolding sublist_def by (metis append.assoc)
  moreover have "parseAppCategory s = (- 1, Some (errorString ?msg))"
    using False by (rule parse_unknown)
  ultimately show ?thesis using False by simp
qed

theorem parse_succeeds_iff_canonical_witness:
  "''catF'' \<notin> set canonicalNames \<and> [] \<notin> set canonicalNames \<and> ''CatA'' \<notin> set canonicalNames \<and>
   ''catA'' \<in> set canonicalNames \<and>
   parseAppCategory ''catF'' =
     (- 1, Some (errorString (''unknown application category: '' @ [CHR 0x27] @ ''catF'' @ [CHR 0x27]))) \<and>
   parseAppCategory [] =
     (- 1, Some (errorString (''unknown application category: '' @ [CHR 0x27] @ [CHR 0x27]))) \<and>
   parseAppCategory ''CatA'' =
     (- 1, Some (errorString (''unknown application category: '' @ [CHR 0x27] @ ''CatA'' @ [CHR 0x27]))) \<and>
   snd (parseAppCategory ''catA'') = None"
proof -
  have no: "''catF'' \<notin> set canonicalNames" "[] \<notin> set canonicalNames"
      "''CatA'' \<notin> set canonicalNames"
    and yes: "''catA'' \<in> set canonicalNames"
    by (simp_all add: canonicalNames_def)
  from parse_succeeds_iff_canonical [of "''catF''"] parse_succeeds_iff_canonical [of "[]"]
       parse_succeeds_iff_canonical [of "''CatA''"] parse_succeeds_iff_canonical [of "''catA''"]
       no yes
  show ?thesis by (simp add: parseAppCategory_def)
qed

text \<open>
  C8. Every entry of \<open>slowDowns\<close> is at least \<open>0\<close>, and whenever \<open>Attack\<close> returns
  with a nil error, the slowdown it returns is at least \<open>0\<close>.
\<close>

theorem slowdowns_nonnegative:
  "(\<forall>a row b v. slowDowns a = Some row \<longrightarrow> row b = Some v \<longrightarrow> 0 \<le> v) \<and>
   (\<forall>m att occ v. Attack m att occ = Return (v, None) \<longrightarrow> 0 \<le> v)"
proof (intro conjI allI impI)
  fix a row b v
  assume "slowDowns a = Some row" "row b = Some v"
  then show "0 \<le> v" by (rule slowDowns_nonneg)
next
  fix m att occ v
  assume r: "Attack m att occ = Return (v, None)"
  then obtain hs p q where "m = Some hs" "att = Some p" "occ = Some q"
    by (cases m; cases att; cases occ) (simp_all add: Attack_def)
  with r have "\<exists>c d. v = attack c d"
    by (auto simp: Attack_pods split: prod.splits option.splits)
  then show "0 \<le> v" using attack_nonneg by auto
qed

theorem slowdowns_nonnegative_witness:
  "slowDowns catB = Some (index_row slowDowns catB) \<and>
   index_row slowDowns catB catD = Some 3.10 \<and> (0::real) \<le> 3.10 \<and>
   Attack (Some exampleModel) (Some (examplePod ''catB'')) (Some unlabelledPod) = Return (0, None) \<and>
   (0::real) \<le> 0"
proof -
  have row: "slowDowns catB = Some (index_row slowDowns catB)"
    and entry: "index_row slowDowns catB catD = Some 3.10"
    by (simp_all add: index_row_def slowDowns_def cat_defs)
  have run: "Attack (Some exampleModel) (Some (examplePod ''catB'')) (Some unlabelledPod) = Return (0, None)"
    by (simp add: Attack_def exampleModel_def examplePod_def unlabelledPod_def index_string_def
        parseAppCategory_def attack_def index_float64_def index_row_def slowDowns_def cat_defs)
  from slowdowns_nonnegative have
    "(0::real) \<le> 3.10" "(0::real) \<le> 0"
    using row entry run by blast+
  with row entry run show ?thesis by simp
qed

text \<open>
  C9. \<open>ToInt64Multiplier\<close> returns \<open>100\<close> on every receiver, the nil one included: it
  reads no state and has no failing branch, so two calls give the same value.
\<close>

theorem ToInt64Multiplier_fixed:
  "ToInt64Multiplier m = 100 \<and> ToInt64Multiplier m = ToInt64Multiplier m' \<and>
   ToInt64Multiplier None = 100"
  by (simp add: ToInt64Multiplier_def toInt64Multiplier_def)

text \<open>
  C10. \<open>String\<close> gives each of the five categories its canonical name, which
  \<open>parseAppCategory\<close> maps back to the category, and gives \<open>UNKNOWN\<close> for every
  other value of \<open>appCategory\<close>.
\<close>

theorem String_total:
  "String catA = ''catA'' \<and> String catB = ''catB'' \<and> String catC = ''catC'' \<and>
   String catD = ''catD'' \<and> String catE = ''catE'' \<and>
   (c \<in> set categories \<longrightarrow> parseAppCategory (String c) = (c, None)) \<and>
   (c \<notin> set categories \<longrightarrow> String c = ''UNKNOWN'')"
  by (simp add: parse_String) (simp add: String_def categories_def cat_defs)

theorem String_total_witness:
  "catD \<in> set categories \<and> parseAppCategory (String catD) = (catD, None) \<and>
   (- 1 :: appCategory) \<notin> set categories \<and> String (- 1) = ''UNKNOWN'' \<and>
   (5 :: appCategory) \<notin> set categories \<and> String 5 = ''UNKNOWN''"
proof -
  have yes: "catD \<in> set categories"
    and no: "(- 1 :: appCategory) \<notin> set categories" "(5 :: appCategory) \<notin> set categories"
    by (simp_all add: categories_def cat_defs)
  from String_total [of catD] String_total [of "- 1"] String_total [of 5] yes no
  show ?thesis by simp
qed

end
